theory Spec2Isabelle
  imports Main "HOL-Library.AList"
begin

unbundle bit_operations_syntax

section \<open>The context store of grant-buddy (src/context\_manager.py)\<close>

text \<open>
  The theory embeds the persistence layer of \<^verbatim>\<open>ContextManager\<close>: the derivation of a
  tenant's file from the workspace key, the load and save of the tenant's document, and
  the record operations on top of them.

  What stands for what:
  \<^item> a Python \<^verbatim>\<open>str\<close> is a \<open>string\<close>; a workspace key is the list of the bytes that
    \<^verbatim>\<open>workspace_key.encode()\<close> yields;
  \<^item> a Python value that came out of \<^verbatim>\<open>json.loads\<close> is a \<open>json\<close>; \<^verbatim>\<open>None\<close> is
    \<open>JNull\<close>, a \<^verbatim>\<open>dict\<close> is an association list in insertion order;
  \<^item> a text handed to the JSON parser, or the contents of a file, is a \<open>document\<close>,
    sorted by what the parser does with it;
  \<^item> the parser and the encoder give up on values nested too deep and on integers too
    long; how deep and how long depends on the interpreter, and is a parameter \<open>L\<close>;
  \<^item> the storage directory is a map from file paths to documents; opening, reading and
    writing a file do not fail by themselves (no full disk, no missing permission);
  \<^item> an exception that leaves a method is a value \<open>Inl e\<close>; a method that may write
    returns its outcome together with the files as it leaves them;
  \<^item> the reading of \<^verbatim>\<open>datetime.now().isoformat()\<close> is passed in as \<open>now\<close>.
\<close>
subsection \<open>SHA-256 (hashlib.sha256, after FIPS 180-4), 32-bit words as naturals\<close>

definition add32 :: "nat \<Rightarrow> nat \<Rightarrow> nat" where
  "add32 x y = (x + y) mod 4294967296"

definition rotr :: "nat \<Rightarrow> nat \<Rightarrow> nat" where
  "rotr n x = (x div 2 ^ n + x * 2 ^ (32 - n)) mod 4294967296"

definition ch :: "nat \<Rightarrow> nat \<Rightarrow> nat \<Rightarrow> nat" where
  "ch x y z = (x AND y) XOR ((4294967295 - x) AND z)"

definition maj :: "nat \<Rightarrow> nat \<Rightarrow> nat \<Rightarrow> nat" where
  "maj x y z = (x AND y) XOR (x AND z) XOR (y AND z)"

definition bsig0 :: "nat \<Rightarrow> nat" where
  "bsig0 x = rotr 2 x XOR rotr 13 x XOR rotr 22 x"

definition bsig1 :: "nat \<Rightarrow> nat" where
  "bsig1 x = rotr 6 x XOR rotr 11 x XOR rotr 25 x"

definition ssig0 :: "nat \<Rightarrow> nat" where
  "ssig0 x = rotr 7 x XOR rotr 18 x XOR (x div 2 ^ 3)"

definition ssig1 :: "nat \<Rightarrow> nat" where
  "ssig1 x = rotr 17 x XOR rotr 19 x XOR (x div 2 ^ 10)"

text \<open>
  The round constants and the initial hash value (FIPS 180-4, 4.2.2 and 5.3.3), in
  decimal: the first round constant is 428a2f98 in hexadecimal, the first word of the
  initial hash value 6a09e667.
\<close>

definition sha256_k :: "nat list" where
  "sha256_k =
   [1116352408, 1899447441, 3049323471, 3921009573, 961987163, 1508970993,
    2453635748, 2870763221, 3624381080, 310598401, 607225278, 1426881987,
    1925078388, 2162078206, 2614888103, 3248222580, 3835390401, 4022224774,
    264347078, 604807628, 770255983, 1249150122, 1555081692, 1996064986,
    2554220882, 2821834349, 2952996808, 3210313671, 3336571891, 3584528711,
    113926993, 338241895, 666307205, 773529912, 1294757372, 1396182291,
    1695183700, 1986661051, 2177026350, 2456956037, 2730485921, 2820302411,
    3259730800, 3345764771, 3516065817, 3600352804, 4094571909, 275423344,
    430227734, 506948616, 659060556, 883997877, 958139571, 1322822218,
    1537002063, 1747873779, 1955562222, 2024104815, 2227730452, 2361852424,
    2428436474, 2756734187, 3204031479, 3329325298]"

definition sha256_init :: "nat list" where
  "sha256_init =
   [1779033703, 3144134277, 1013904242, 2773480762,
    1359893119, 2600822924, 528734635, 1541459225]"

text \<open>The bit length of the message, as eight bytes, most significant first.\<close>

definition length_bytes :: "nat \<Rightarrow> nat list" where
  "length_bytes n = map (\<lambda>i. (n div 256 ^ i) mod 256) [7, 6, 5, 4, 3, 2, 1, 0]"

text \<open>Padding: the byte 0x80, zero bytes up to 56 modulo 64, then the bit length.\<close>

definition sha256_pad :: "nat list \<Rightarrow> nat list" where
  "sha256_pad bs =
     bs @ [128] @ replicate ((119 - length bs mod 64) mod 64) 0 @ length_bytes (8 * length bs)"

fun be_words :: "nat list \<Rightarrow> nat list" where
  "be_words (a # b # c # d # rest) = (((a * 256 + b) * 256 + c) * 256 + d) # be_words rest"
| "be_words _ = []"

fun blocks :: "nat \<Rightarrow> nat list \<Rightarrow> nat list list" where
  "blocks 0 bs = []"
| "blocks (Suc k) bs = take 64 bs # blocks k (drop 64 bs)"

text \<open>The message schedule, newest word first: the head of the list is w[t-1].\<close>

fun schedule :: "nat \<Rightarrow> nat list \<Rightarrow> nat list" where
  "schedule 0 ws = ws"
| "schedule (Suc n) ws =
     schedule n (add32 (add32 (ssig1 (ws ! 1)) (ws ! 6)) (add32 (ssig0 (ws ! 14)) (ws ! 15)) # ws)"

fun round256 :: "nat list \<Rightarrow> nat \<times> nat \<Rightarrow> nat list" where
  "round256 [a, b, c, d, e, f, g, h] (k, w) =
     (let t1 = add32 (add32 (add32 h (bsig1 e)) (add32 (ch e f g) k)) w;
          t2 = add32 (bsig0 a) (maj a b c)
      in [add32 t1 t2, a, b, c, add32 d t1, e, f, g])"
| "round256 s _ = s"

definition compress :: "nat list \<Rightarrow> nat list \<Rightarrow> nat list" where
  "compress s block =
     map2 add32 s (foldl round256 s (zip sha256_k (rev (schedule 48 (rev block)))))"

definition sha256 :: "string \<Rightarrow> nat list" where
  "sha256 msg =
     (let bs = sha256_pad (map of_char msg)
      in foldl compress sha256_init (map be_words (blocks (length bs div 64) bs)))"

definition hex_digit :: "nat \<Rightarrow> char" where
  "hex_digit n = ''0123456789abcdef'' ! n"

definition hex32 :: "nat \<Rightarrow> string" where
  "hex32 w = map (\<lambda>i. hex_digit ((w div 16 ^ i) mod 16)) [7, 6, 5, 4, 3, 2, 1, 0]"

definition hexdigest :: "nat list \<Rightarrow> string" where
  "hexdigest s = concat (map hex32 s)"

subsection \<open>Values and errors\<close>

text \<open>
  A float is carried as its \<^verbatim>\<open>repr\<close> (\<^verbatim>\<open>1.5\<close>, \<^verbatim>\<open>nan\<close>, \<^verbatim>\<open>-inf\<close>): the store never
  computes with one.
\<close>

datatype json =
    JNull
  | JBool bool
  | JInt int
  | JFloat string
  | JStr string
  | JArr "json list"
  | JObj "(string \<times> json) list"

datatype error =
    AttributeError
  | TypeError
  | IndexError
  | KeyError
  | JSONDecodeError
  | RecursionError
  | ValueError
  | UnicodeDecodeError

subsection \<open>The Python operations the methods use\<close>


fun str_nat :: "nat \<Rightarrow> string" where
  "str_nat n =
     (if n < 10 then [''0123456789'' ! n]
      else str_nat (n div 10) @ [''0123456789'' ! (n mod 10)])"

definition str_int :: "int \<Rightarrow> string" where
  "str_int i = (if i < 0 then CHR ''-'' # str_nat (nat (- i)) else str_nat (nat i))"

text \<open>
  The key under which an entry of a dict reads back from the text \<^verbatim>\<open>json.dump\<close> writes.
  A \<^verbatim>\<open>str\<close> key is itself; \<^verbatim>\<open>json.dump\<close> writes \<^verbatim>\<open>True\<close>, \<^verbatim>\<open>False\<close>, \<^verbatim>\<open>None\<close>, an
  \<^verbatim>\<open>int\<close> and a \<^verbatim>\<open>float\<close> key as the strings below. A list or a dict is not hashable
  and cannot be a key at all.
\<close>

fun key_text :: "json \<Rightarrow> string option" where
  "key_text (JStr s) = Some s"
| "key_text (JBool b) = Some (if b then ''true'' else ''false'')"
| "key_text JNull = Some ''null''"
| "key_text (JInt i) = Some (str_int i)"
| "key_text (JFloat r) =
     Some (if r = ''nan'' then ''NaN'' else if r = ''inf'' then ''Infinity''
           else if r = ''-inf'' then ''-Infinity'' else r)"
| "key_text (JArr xs) = None"
| "key_text (JObj kvs) = None"

text \<open>A value as a list index: an \<^verbatim>\<open>int\<close>, or a \<^verbatim>\<open>bool\<close>, which is one.\<close>

fun py_index :: "json \<Rightarrow> int option" where
  "py_index (JInt i) = Some i"
| "py_index (JBool b) = Some (if b then 1 else 0)"
| "py_index _ = None"

text \<open>
  \<^verbatim>\<open>container[key] = v\<close>. On a dict the entry is replaced where it stands or appended.
  The dict is only ever written out afterwards, so a key that is not a \<^verbatim>\<open>str\<close> is entered
  as \<open>key_text\<close> gives it: in memory it is a new entry at the end, the written text then
  has that key last, and the parser keeps the last value of a repeated key at the place
  of its first occurrence. On a list the index counts from the end when negative; on
  anything else the assignment raises.
\<close>

fun py_setitem :: "json \<Rightarrow> json \<Rightarrow> json \<Rightarrow> error + json" where
  "py_setitem (JObj kvs) key v =
     (case key_text key of
        None \<Rightarrow> Inl TypeError
      | Some k \<Rightarrow> Inr (JObj (AList.update k v kvs)))"
| "py_setitem (JArr xs) key v =
     (case py_index key of
        None \<Rightarrow> Inl TypeError
      | Some i \<Rightarrow>
          (let n = int (length xs); j = (if i < 0 then i + n else i)
           in if 0 \<le> j \<and> j < n then Inr (JArr (xs[nat j := v])) else Inl IndexError))"
| "py_setitem _ key v = Inl TypeError"

text \<open>\<^verbatim>\<open>container.get(key, default)\<close>: only a dict has the method.\<close>

fun py_get :: "json \<Rightarrow> string \<Rightarrow> json \<Rightarrow> error + json" where
  "py_get (JObj kvs) key dflt = Inr (case map_of kvs key of None \<Rightarrow> dflt | Some v \<Rightarrow> v)"
| "py_get _ key dflt = Inl AttributeError"

text \<open>\<^verbatim>\<open>list(container.keys())\<close>.\<close>

fun py_keys :: "json \<Rightarrow> error + string list" where
  "py_keys (JObj kvs) = Inr (map fst kvs)"
| "py_keys _ = Inl AttributeError"

fun starts_with :: "string \<Rightarrow> string \<Rightarrow> bool" where
  "starts_with s [] = True"
| "starts_with [] (p # ps) = False"
| "starts_with (c # cs) (p # ps) = (c = p \<and> starts_with cs ps)"

fun is_substring :: "string \<Rightarrow> string \<Rightarrow> bool" where
  "is_substring p [] = (p = [])"
| "is_substring p (c # cs) = (starts_with (c # cs) p \<or> is_substring p cs)"

text \<open>
  \<^verbatim>\<open>name in container\<close> for a \<^verbatim>\<open>str\<close> name: a key of a dict, an element of a list, a
  substring of a string; other values are not iterable.
\<close>

fun py_contains :: "json \<Rightarrow> string \<Rightarrow> error + bool" where
  "py_contains (JObj kvs) name = Inr (name \<in> set (map fst kvs))"
| "py_contains (JArr xs) name = Inr (JStr name \<in> set xs)"
| "py_contains (JStr s) name = Inr (is_substring name s)"
| "py_contains _ name = Inl TypeError"

text \<open>\<^verbatim>\<open>del container[name]\<close> for a \<^verbatim>\<open>str\<close> name.\<close>

fun py_delitem :: "json \<Rightarrow> string \<Rightarrow> error + json" where
  "py_delitem (JObj kvs) name =
     (if name \<in> set (map fst kvs) then Inr (JObj (AList.delete name kvs)) else Inl KeyError)"
| "py_delitem _ name = Inl TypeError"


subsection \<open>The JSON library: texts, limits, parsing and writing\<close>

text \<open>
  How deep the parser and the encoder follow nested lists and dicts before they raise
  \<^verbatim>\<open>RecursionError\<close>, and how many digits an integer may have before its conversion
  raises \<^verbatim>\<open>ValueError\<close> (\<^verbatim>\<open>sys.int_max_str_digits\<close>), is a matter of the interpreter
  and of how deep in calls it stands. The encoder is taken to go at least as deep as the
  parser, \<open>dump_extra\<close> levels deeper: what was read can be written.
\<close>

record limits =
  parse_depth :: nat
  dump_extra :: nat
  max_digits :: nat

fun first_error :: "error option list \<Rightarrow> error option" where
  "first_error [] = None"
| "first_error (None # es) = first_error es"
| "first_error (Some e # es) = Some e"

text \<open>
  What stops the parser or the encoder in a value, going through it as its text runs:
  an integer of more than \<open>M\<close> digits, or a list or dict that already has \<open>D\<close> lists or
  dicts around it (\<open>d\<close> counts them).
\<close>

fun over_limit :: "nat \<Rightarrow> nat \<Rightarrow> nat \<Rightarrow> json \<Rightarrow> error option" where
  "over_limit D M d (JInt i) =
     (if M < length (str_nat (nat \<bar>i\<bar>)) then Some ValueError else None)"
| "over_limit D M d (JArr xs) =
     (if D \<le> d then Some RecursionError
      else first_error (map (over_limit D M (Suc d)) xs))"
| "over_limit D M d (JObj kvs) =
     (if D \<le> d then Some RecursionError
      else first_error (map (\<lambda>kv. over_limit D M (Suc d) (snd kv)) kvs))"
| "over_limit D M d v = None"

text \<open>
  A text, by what the parser makes of it:
  \<^item> \<open>Document v\<close> is well-formed JSON that denotes \<open>v\<close>, such as the text the encoder
    writes for \<open>v\<close>; the parser returns \<open>v\<close> unless \<open>v\<close> is beyond its limits;
  \<^item> \<open>Malformed t\<close> is a text \<open>t\<close> on which the parser raises \<^verbatim>\<open>JSONDecodeError\<close>;
  \<^item> \<open>Refused e t\<close> is a text \<open>t\<close> on which it raises another exception \<open>e\<close>: an
    unclosed run of a thousand brackets (\<^verbatim>\<open>RecursionError\<close>), an unterminated number of
    five thousand digits (\<^verbatim>\<open>ValueError\<close>), or, for a file, bytes that are not text
    (\<^verbatim>\<open>UnicodeDecodeError\<close>);
  \<^item> \<open>Truncated v\<close> is what the encoder had written of \<open>v\<close> when it raised. It is cut
    off before the place where the encoder stopped, so it is never well-formed; the
    parser raises \<^verbatim>\<open>RecursionError\<close> if it meets nesting beyond its own depth in what
    was written, which takes an encoder that goes deeper than the parser, and
    \<^verbatim>\<open>JSONDecodeError\<close> at the cut otherwise.
\<close>

datatype document =
    Document json
  | Malformed string
  | Refused error string
  | Truncated json

type_synonym files = "string \<rightharpoonup> document"

text \<open>\<^verbatim>\<open>json.loads(text)\<close>, and \<^verbatim>\<open>json.load(f)\<close> on a file that holds \<open>text\<close>.\<close>

definition json_loads :: "limits \<Rightarrow> document \<Rightarrow> error + json" where
  "json_loads L text =
     (case text of
        Document v \<Rightarrow>
          (case over_limit (parse_depth L) (max_digits L) 0 v of
             None \<Rightarrow> Inr v
           | Some e \<Rightarrow> Inl e)
      | Malformed t \<Rightarrow> Inl JSONDecodeError
      | Refused e t \<Rightarrow> Inl e
      | Truncated v \<Rightarrow>
          (if 0 < dump_extra L
              \<and> over_limit (parse_depth L) (max_digits L) 0 v = Some RecursionError
           then Inl RecursionError else Inl JSONDecodeError))"

text \<open>\<^verbatim>\<open>json.dumps(v, indent=2)\<close>: the text of \<open>v\<close>, or the exception of the encoder.\<close>

definition json_dumps :: "limits \<Rightarrow> json \<Rightarrow> error + document" where
  "json_dumps L v =
     (case over_limit (parse_depth L + dump_extra L) (max_digits L) 0 v of
        None \<Rightarrow> Inr (Document v)
      | Some e \<Rightarrow> Inl e)"

subsection \<open>ContextManager\<close>

definition base_storage_dir :: string where
  "base_storage_dir = ''user_contexts''"

definition key_hash :: "string \<Rightarrow> string" where
  "key_hash workspace_key = take 16 (hexdigest (sha256 workspace_key))"

definition get_user_file_path :: "string \<Rightarrow> string" where
  "get_user_file_path workspace_key =
     base_storage_dir @ ''/'' @ ''contexts_'' @ key_hash workspace_key @ ''.json''"

text \<open>
  Of the exceptions of \<^verbatim>\<open>json.load\<close> only \<^verbatim>\<open>JSONDecodeError\<close> is caught (and
  \<^verbatim>\<open>FileNotFoundError\<close>, which the check of the path leaves no room for); any other
  leaves the method.
\<close>

definition load_contexts :: "limits \<Rightarrow> files \<Rightarrow> string \<Rightarrow> error + json" where
  "load_contexts L fs workspace_key =
     (if workspace_key = [] then Inr (JObj [])
      else case fs (get_user_file_path workspace_key) of
             None \<Rightarrow> Inr (JObj [])
           | Some text \<Rightarrow>
               (case json_loads L text of
                  Inr v \<Rightarrow> Inr v
                | Inl e \<Rightarrow> if e = JSONDecodeError then Inr (JObj []) else Inl e))"

text \<open>
  \<^verbatim>\<open>open(file_path, "w")\<close> empties the file and \<^verbatim>\<open>json.dump\<close> writes into it piece by
  piece: when the encoder raises, the file is left with what was written before.
\<close>

definition save_contexts ::
  "limits \<Rightarrow> files \<Rightarrow> json \<Rightarrow> string \<Rightarrow> (error + unit) \<times> files" where
  "save_contexts L fs contexts workspace_key =
     (if workspace_key = [] then (Inr (), fs)
      else case json_dumps L contexts of
             Inr text \<Rightarrow> (Inr (), fs(get_user_file_path workspace_key \<mapsto> text))
           | Inl e \<Rightarrow> (Inl e, fs(get_user_file_path workspace_key \<mapsto> Truncated contexts)))"

definition get_context_names :: "limits \<Rightarrow> files \<Rightarrow> string \<Rightarrow> error + string list" where
  "get_context_names L fs workspace_key =
     (case load_contexts L fs workspace_key of
        Inl e \<Rightarrow> Inl e
      | Inr contexts \<Rightarrow> py_keys contexts)"

definition get_context :: "limits \<Rightarrow> files \<Rightarrow> string \<Rightarrow> string \<Rightarrow> error + json" where
  "get_context L fs name workspace_key =
     (case load_contexts L fs workspace_key of
        Inl e \<Rightarrow> Inl e
      | Inr contexts \<Rightarrow> py_get contexts name JNull)"

text \<open>
  \<open>name\<close> is a value: \<open>import_context\<close> passes on whatever the document has under
  \<^verbatim>\<open>company_name\<close>.
\<close>

definition save_context ::
  "limits \<Rightarrow> string \<Rightarrow> files \<Rightarrow> json \<Rightarrow> json \<Rightarrow> string \<Rightarrow> (error + unit) \<times> files" where
  "save_context L now fs name context_data workspace_key =
     (if workspace_key = [] then (Inr (), fs)
      else case load_contexts L fs workspace_key of
             Inl e \<Rightarrow> (Inl e, fs)
           | Inr contexts \<Rightarrow>
               (case py_setitem context_data (JStr ''last_updated'') (JStr now) of
                  Inl e \<Rightarrow> (Inl e, fs)
                | Inr context_data' \<Rightarrow>
                    (case py_setitem contexts name context_data' of
                       Inl e \<Rightarrow> (Inl e, fs)
                     | Inr contexts' \<Rightarrow> save_contexts L fs contexts' workspace_key)))"

definition delete_context ::
  "limits \<Rightarrow> files \<Rightarrow> string \<Rightarrow> string \<Rightarrow> (error + unit) \<times> files" where
  "delete_context L fs name workspace_key =
     (if workspace_key = [] then (Inr (), fs)
      else case load_contexts L fs workspace_key of
             Inl e \<Rightarrow> (Inl e, fs)
           | Inr contexts \<Rightarrow>
               (case py_contains contexts name of
                  Inl e \<Rightarrow> (Inl e, fs)
                | Inr False \<Rightarrow> (Inr (), fs)
                | Inr True \<Rightarrow>
                    (case py_delitem contexts name of
                       Inl e \<Rightarrow> (Inl e, fs)
                     | Inr contexts' \<Rightarrow> save_contexts L fs contexts' workspace_key)))"


text \<open>
  The \<^verbatim>\<open>try\<close> spans the parse and the save; \<^verbatim>\<open>except json.JSONDecodeError\<close> answers
  \<^verbatim>\<open>False\<close>, every other exception leaves the method.
\<close>

definition import_context ::
  "limits \<Rightarrow> string \<Rightarrow> files \<Rightarrow> document \<Rightarrow> string \<Rightarrow> string option
     \<Rightarrow> (error + bool) \<times> files" where
  "import_context L now fs json_string workspace_key context_name =
     (if workspace_key = [] then (Inr False, fs)
      else case json_loads L json_string of
             Inl e \<Rightarrow> if e = JSONDecodeError then (Inr False, fs) else (Inl e, fs)
           | Inr context_data \<Rightarrow>
               (case (case context_name of
                        Some (c # cs) \<Rightarrow> Inr (JStr (c # cs))
                      | _ \<Rightarrow> py_get context_data ''company_name'' (JStr ''Imported Context'')) of
                  Inl e \<Rightarrow> if e = JSONDecodeError then (Inr False, fs) else (Inl e, fs)
                | Inr name \<Rightarrow>
                    (case save_context L now fs name context_data workspace_key of
                       (Inl e, fs') \<Rightarrow>
                         if e = JSONDecodeError then (Inr False, fs') else (Inl e, fs')
                     | (Inr u, fs') \<Rightarrow> (Inr True, fs'))))"

text \<open>\<^verbatim>\<open>isinstance(v, dict)\<close>, to state what a method was given.\<close>

fun is_dict :: "json \<Rightarrow> bool" where
  "is_dict (JObj kvs) = True"
| "is_dict _ = False"


text \<open>
  An interpreter for the examples: the parser follows 990 levels of nesting, the
  encoder 1000, and an integer may have 4300 digits.
\<close>

definition example_limits :: limits where
  "example_limits = \<lparr>parse_depth = 990, dump_extra = 10, max_digits = 4300\<rparr>"

section \<open>The tenant key\<close>

subsection \<open>Evaluating the digest\<close>

lemma schedule_numeral:
  "schedule (numeral k) ws =
     schedule (pred_numeral k)
       (add32 (add32 (ssig1 (ws ! 1)) (ws ! 6)) (add32 (ssig0 (ws ! 14)) (ws ! 15)) # ws)"
  by (simp add: numeral_eq_Suc)

lemma blocks_numeral:
  "blocks (numeral k) bs = take 64 bs # blocks (pred_numeral k) (drop 64 bs)"
  by (simp add: numeral_eq_Suc)

lemma replicate_numeral:
  "replicate (numeral k) x = x # replicate (pred_numeral k) x"
  by (simp add: numeral_eq_Suc)

lemmas sha256_eval =
  add32_def rotr_def ch_def maj_def bsig0_def bsig1_def ssig0_def ssig1_def
  sha256_k_def sha256_init_def length_bytes_def sha256_pad_def compress_def sha256_def
  schedule_numeral blocks_numeral replicate_numeral Let_def

lemmas hex_eval = key_hash_def hexdigest_def hex32_def hex_digit_def

text \<open>The digest of the empty message, e3b0c442 98fc1c14 ..., the standard test vector.\<close>

lemma sha256_empty:
  "sha256 [] =
     [3820012610, 2566659092, 2600203464, 2574235940, 665731556, 1687917388,
      2761267483, 2018687061]"
  by (simp add: sha256_eval)

lemma sha256_alice:
  "sha256 ''alice'' =
     [735577801, 2131624111, 438289202, 2410111913, 647439304, 3683626063,
      2477748699, 409824912]"
  by (simp add: sha256_eval)

lemma sha256_bob:
  "sha256 ''bob'' =
     [2176202712, 4241671898, 1666836118, 823370007, 233280996, 3072702541,
      504057085, 2663746793]"
  by (simp add: sha256_eval)

lemma key_hash_empty: "key_hash [] = ''e3b0c44298fc1c14''"
  by (simp add: hex_eval sha256_empty)

lemma key_hash_alice: "key_hash ''alice'' = ''2bd806c97f0e00af''"
  by (simp add: hex_eval sha256_alice)

lemma key_hash_bob: "key_hash ''bob'' = ''81b637d8fcd2c6da''"
  by (simp add: hex_eval sha256_bob)

subsection \<open>The shape of a key\<close>

lemma length_round256: "length (round256 s kw) = length s"
  by (induction s kw rule: round256.induct) (simp_all add: Let_def)

lemma length_foldl_round256: "length (foldl round256 s kws) = length s"
  by (induction kws arbitrary: s) (simp_all add: length_round256)

lemma length_compress: "length (compress s block) = length s"
  by (simp add: compress_def length_foldl_round256)

lemma length_foldl_compress: "length (foldl compress s bs) = length s"
  by (induction bs arbitrary: s) (simp_all add: length_compress)

lemma length_sha256: "length (sha256 msg) = 8"
  by (simp add: sha256_def Let_def length_foldl_compress sha256_init_def)

lemma length_hex32: "length (hex32 w) = 8"
  by (simp add: hex32_def)

lemma length_hexdigest: "length (hexdigest s) = 8 * length s"
  by (induction s) (simp_all add: hexdigest_def length_hex32)

lemma length_key_hash: "length (key_hash workspace_key) = 16"
  by (simp add: key_hash_def length_hexdigest length_sha256)

lemma hex_digit_range: "n < 16 \<Longrightarrow> hex_digit n \<in> set ''0123456789abcdef''"
  unfolding hex_digit_def by (rule nth_mem) simp

lemma set_hex32: "set (hex32 w) \<subseteq> set ''0123456789abcdef''"
proof
  fix c
  assume "c \<in> set (hex32 w)"
  then have "c \<in> (\<lambda>i. hex_digit ((w div 16 ^ i) mod 16)) ` set [7, 6, 5, 4, 3, 2, 1, 0]"
    by (simp only: hex32_def set_map)
  then obtain i where "c = hex_digit ((w div 16 ^ i) mod 16)"
    by blast
  then show "c \<in> set ''0123456789abcdef''"
    using hex_digit_range [of "(w div 16 ^ i) mod 16"] by simp
qed

lemma set_hexdigest: "set (hexdigest s) \<subseteq> set ''0123456789abcdef''"
  unfolding hexdigest_def using set_hex32 by (auto simp del: set_simps)

lemma set_key_hash: "set (key_hash workspace_key) \<subseteq> set ''0123456789abcdef''"
  unfolding key_hash_def
  by (rule subset_trans [OF set_take_subset set_hexdigest])

lemma finite_keys: "finite (range key_hash)"
proof -
  have "range key_hash \<subseteq> {xs. set xs \<subseteq> UNIV \<and> length xs = 16}"
    by (auto simp: length_key_hash)
  moreover have "finite {xs :: string. set xs \<subseteq> UNIV \<and> length xs = 16}"
    by (rule finite_lists_length_eq) simp
  ultimately show ?thesis by (rule finite_subset)
qed

lemma path_eq_iff:
  "get_user_file_path w1 = get_user_file_path w2 \<longleftrightarrow> key_hash w1 = key_hash w2"
  by (simp add: get_user_file_path_def length_key_hash)


section \<open>The store\<close>

subsection \<open>The limits\<close>

lemma first_error_None: "first_error es = None \<longleftrightarrow> (\<forall>e \<in> set es. e = None)"
  by (induction es rule: first_error.induct) auto

lemma first_error_Some: "first_error es = Some e \<Longrightarrow> Some e \<in> set es"
  by (induction es rule: first_error.induct) auto

lemma over_limit_JObj_None:
  "over_limit D M d (JObj kvs) = None \<longleftrightarrow>
     d < D \<and> (\<forall>kv \<in> set kvs. over_limit D M (Suc d) (snd kv) = None)"
  by (auto simp: first_error_None)

lemma over_limit_JArr_None:
  "over_limit D M d (JArr xs) = None \<longleftrightarrow>
     d < D \<and> (\<forall>x \<in> set xs. over_limit D M (Suc d) x = None)"
  by (auto simp: first_error_None)

lemma over_limit_kinds:
  "over_limit D M d v = Some e \<Longrightarrow> e = RecursionError \<or> e = ValueError"
proof (induction v arbitrary: d)
  case (JArr xs)
  show ?case
  proof (cases "D \<le> d")
    case True
    with JArr.prems show ?thesis by simp
  next
    case False
    with JArr.prems have "Some e \<in> set (map (over_limit D M (Suc d)) xs)"
      by (auto dest: first_error_Some)
    then obtain x where "x \<in> set xs" and "over_limit D M (Suc d) x = Some e"
      by auto
    then show ?thesis by (rule JArr.IH)
  qed
next
  case (JObj kvs)
  show ?case
  proof (cases "D \<le> d")
    case True
    with JObj.prems show ?thesis by simp
  next
    case False
    with JObj.prems
    have "Some e \<in> set (map (\<lambda>kv. over_limit D M (Suc d) (snd kv)) kvs)"
      by (auto dest: first_error_Some)
    then obtain kv where kv: "kv \<in> set kvs" and "over_limit D M (Suc d) (snd kv) = Some e"
      by auto
    moreover have "snd kv \<in> Basic_BNFs.snds kv"
      by (cases kv) simp
    ultimately show ?thesis using JObj.IH by blast
  qed
qed (auto split: if_splits)

lemma over_limit_not_decode_error: "over_limit D M d v \<noteq> Some JSONDecodeError"
  using over_limit_kinds [of D M d v JSONDecodeError] by auto

lemma over_limit_mono:
  "over_limit D M d' v = None \<Longrightarrow> d \<le> d' \<Longrightarrow> D \<le> D' \<Longrightarrow> over_limit D' M d v = None"
proof (induction v arbitrary: d d')
  case (JArr xs)
  from JArr.prems(1) have "d' < D \<and> (\<forall>x \<in> set xs. over_limit D M (Suc d') x = None)"
    using over_limit_JArr_None [of D M d' xs] by blast
  then have "d' < D" and el: "\<forall>x \<in> set xs. over_limit D M (Suc d') x = None"
    by blast+
  with JArr.prems(2,3) have "d < D'" by simp
  moreover have "over_limit D' M (Suc d) x = None" if "x \<in> set xs" for x
    using JArr.IH [OF that, of "Suc d'" "Suc d"] el that JArr.prems(2,3) by simp
  ultimately show ?case
    using over_limit_JArr_None [of D' M d xs] by blast
next
  case (JObj kvs)
  from JObj.prems(1)
  have "d' < D \<and> (\<forall>kv \<in> set kvs. over_limit D M (Suc d') (snd kv) = None)"
    using over_limit_JObj_None [of D M d' kvs] by blast
  then have "d' < D" and el: "\<forall>kv \<in> set kvs. over_limit D M (Suc d') (snd kv) = None"
    by blast+
  with JObj.prems(2,3) have "d < D'" by simp
  moreover have "over_limit D' M (Suc d) (snd kv) = None" if "kv \<in> set kvs" for kv
  proof -
    have "snd kv \<in> Basic_BNFs.snds kv"
      by (cases kv) simp
    from JObj.IH [OF that this, of "Suc d'" "Suc d"] el that JObj.prems(2,3)
    show ?thesis by simp
  qed
  ultimately show ?case
    using over_limit_JObj_None [of D' M d kvs] by blast
qed simp_all


lemma set_delete_subset: "set (AList.delete k al) \<subseteq> set al"
  by (induction al) auto


lemma over_limit_delete:
  assumes "over_limit D M d (JObj kvs) = None"
  shows "over_limit D M d (JObj (AList.delete k kvs)) = None"
  using assms set_delete_subset [of k kvs]
    over_limit_JObj_None [of D M d kvs]
    over_limit_JObj_None [of D M d "AList.delete k kvs"]
  by auto




subsection \<open>Loading and saving\<close>

lemma load_contexts_not_decode_error: "load_contexts L fs workspace_key \<noteq> Inl JSONDecodeError"
  by (auto simp: load_contexts_def split: option.splits sum.splits)

lemma load_contexts_within:
  assumes "load_contexts L fs workspace_key = Inr v"
  shows "v = JObj [] \<or> over_limit (parse_depth L) (max_digits L) 0 v = None"
  using assms
  by (auto simp: load_contexts_def json_loads_def
      split: if_splits option.splits sum.splits document.splits)

lemma json_dumps_within:
  assumes "over_limit (parse_depth L) (max_digits L) 0 v = None"
  shows "json_dumps L v = Inr (Document v)"
  using over_limit_mono [OF assms, of 0 "parse_depth L + dump_extra L"]
  by (simp add: json_dumps_def)

lemma save_contexts_within:
  assumes "workspace_key \<noteq> []" and "over_limit (parse_depth L) (max_digits L) 0 c = None"
  shows "save_contexts L fs c workspace_key
           = (Inr (), fs(get_user_file_path workspace_key \<mapsto> Document c))"
    and "load_contexts L (fs(get_user_file_path workspace_key \<mapsto> Document c)) workspace_key
           = Inr c"
  using assms
  by (simp_all add: save_contexts_def json_dumps_within load_contexts_def json_loads_def)

lemma save_contexts_failing:
  assumes "workspace_key \<noteq> []" and "json_dumps L c = Inl e"
  shows "save_contexts L fs c workspace_key
           = (Inl e, fs(get_user_file_path workspace_key \<mapsto> Truncated c))"
  using assms by (simp add: save_contexts_def)






lemma delete_context_present:
  assumes "workspace_key \<noteq> []"
    and "load_contexts L fs workspace_key = Inr (JObj cs)"
    and "name \<in> set (map fst cs)"
  shows "delete_context L fs name workspace_key
           = (Inr (), fs(get_user_file_path workspace_key \<mapsto>
                Document (JObj (AList.delete name cs))))"
    and "load_contexts L
           (fs(get_user_file_path workspace_key \<mapsto> Document (JObj (AList.delete name cs))))
           workspace_key
         = Inr (JObj (AList.delete name cs))"
proof -
  from assms(3) have "JObj cs \<noteq> JObj []" by auto
  with load_contexts_within [OF assms(2)]
  have "over_limit (parse_depth L) (max_digits L) 0 (JObj cs) = None" by blast
  then have w: "over_limit (parse_depth L) (max_digits L) 0 (JObj (AList.delete name cs)) = None"
    by (rule over_limit_delete)
  from save_contexts_within [OF assms(1) w] assms
  show "delete_context L fs name workspace_key
           = (Inr (), fs(get_user_file_path workspace_key \<mapsto>
                Document (JObj (AList.delete name cs))))"
    and "load_contexts L
           (fs(get_user_file_path workspace_key \<mapsto> Document (JObj (AList.delete name cs))))
           workspace_key
         = Inr (JObj (AList.delete name cs))"
    by (simp_all add: delete_context_def)
qed



lemma delete_absent:
  assumes "workspace_key = []
         \<or> (load_contexts L fs workspace_key = Inr (JObj cs) \<and> name \<notin> set (map fst cs))"
  shows "delete_context L fs name workspace_key = (Inr (), fs)"
  using assms by (auto simp add: delete_context_def)

lemma delete_twice:
  assumes "workspace_key = [] \<or> load_contexts L fs workspace_key = Inr (JObj cs)"
  shows "delete_context L (snd (delete_context L fs name workspace_key)) name workspace_key
           = (Inr (), snd (delete_context L fs name workspace_key))"
proof (cases "workspace_key = []")
  case True
  then show ?thesis by (simp add: delete_context_def)
next
  case False
  with assms have l: "load_contexts L fs workspace_key = Inr (JObj cs)" by simp
  show ?thesis
  proof (cases "name \<in> set (map fst cs)")
    case True
    have "name \<notin> set (map fst (AList.delete name cs))"
      by (simp add: delete_keys)
    with delete_context_present [OF False l True] show ?thesis
      using delete_absent
        [of workspace_key L
          "fs(get_user_file_path workspace_key \<mapsto> Document (JObj (AList.delete name cs)))"
          "AList.delete name cs" name]
      by simp
  next
    case False
    with l have "delete_context L fs name workspace_key = (Inr (), fs)"
      using delete_absent [of workspace_key L fs cs name] by simp
    then show ?thesis by simp
  qed
qed


section \<open>The claims\<close>

text \<open>
  C4, as stated: for every input string that does not parse as JSON, \<open>import_context\<close>
  returns \<^verbatim>\<open>False\<close>. An unclosed run of a thousand opening brackets does not parse, and
  the parser leaves it with \<^verbatim>\<open>RecursionError\<close>, which \<open>import_context\<close> does not catch:
  the import raises and returns nothing.
\<close>

theorem import_refused_text_counterexample:
  "import_context example_limits ''2026-11-03T10:00:00'' Map.empty
     (Refused RecursionError (replicate 1000 (CHR ''[''))) ''alice'' None
   = (Inl RecursionError, Map.empty)"
  by (simp add: import_context_def json_loads_def)

text \<open>
  C4, amended. For a workspace key that is not empty and an input string on which the
  parser raises \<^verbatim>\<open>JSONDecodeError\<close>, \<open>import_context\<close> returns \<^verbatim>\<open>False\<close> and leaves the
  files as they were: the names listed for the tenant and the record found under every
  name are the same after the call as before it. On an input string on which the parser
  raises another exception (\<^verbatim>\<open>RecursionError\<close> for nesting beyond its depth,
  \<^verbatim>\<open>ValueError\<close> for an integer beyond the digit limit), \<open>import_context\<close> raises that
  exception instead of returning \<^verbatim>\<open>False\<close>; the files are as they were then too.
\<close>

theorem import_malformed_fails:
  assumes "workspace_key \<noteq> []"
  shows "(json_loads L json_string = Inl JSONDecodeError \<longrightarrow>
            (\<exists>fs'. import_context L now fs json_string workspace_key context_name
                     = (Inr False, fs')
               \<and> fs' = fs
               \<and> get_context_names L fs' workspace_key = get_context_names L fs workspace_key
               \<and> (\<forall>n. get_context L fs' n workspace_key = get_context L fs n workspace_key)))
       \<and> (\<forall>e. json_loads L json_string = Inl e \<and> e \<noteq> JSONDecodeError \<longrightarrow>
            import_context L now fs json_string workspace_key context_name = (Inl e, fs))"
  using assms by (simp add: import_context_def)

theorem import_malformed_fails_witness:
  "''alice'' \<noteq> []
   \<and> json_loads example_limits (Malformed ''not valid json'') = Inl JSONDecodeError
   \<and> import_context example_limits ''2026-11-03T10:00:00''
        [get_user_file_path ''alice'' \<mapsto>
           Document (JObj [(''Acme Corp'', JObj [(''company_name'', JStr ''Acme Corp'')])])]
        (Malformed ''not valid json'') ''alice'' None
     = (Inr False,
        [get_user_file_path ''alice'' \<mapsto>
           Document (JObj [(''Acme Corp'', JObj [(''company_name'', JStr ''Acme Corp'')])])])
   \<and> json_loads example_limits (Refused ValueError (CHR ''['' # replicate 5000 (CHR ''1'')))
       = Inl ValueError
   \<and> import_context example_limits ''2026-11-03T10:00:00'' Map.empty
        (Refused ValueError (CHR ''['' # replicate 5000 (CHR ''1''))) ''alice'' None
     = (Inl ValueError, Map.empty)"
proof -
  have h: "''alice'' \<noteq> []" by simp
  have a: "json_loads example_limits (Malformed ''not valid json'') = Inl JSONDecodeError"
    by (simp add: json_loads_def)
  have b: "json_loads example_limits (Refused ValueError (CHR ''['' # replicate 5000 (CHR ''1'')))
             = Inl ValueError"
    by (simp add: json_loads_def)
  from import_malformed_fails [OF h, of example_limits "Malformed ''not valid json''"]
    import_malformed_fails [OF h, of example_limits
      "Refused ValueError (CHR ''['' # replicate 5000 (CHR ''1''))" _ Map.empty None]
    h a b
  show ?thesis by auto
qed

text \<open>
  C6, as stated: when the tenant document exists but does not parse, \<open>load_contexts\<close>
  returns the empty mapping rather than raising. A file whose bytes are not text (here
  ff fe 7b 7d) does not parse, and reading it raises \<^verbatim>\<open>UnicodeDecodeError\<close>, which
  \<open>load_contexts\<close> does not catch: the load raises, and so do the listing of names and
  \<open>get_context\<close>.
\<close>

theorem load_undecodable_counterexample:
  "load_contexts example_limits
     [get_user_file_path ''alice'' \<mapsto>
        Refused UnicodeDecodeError [CHR 0xFF, CHR 0xFE, CHR ''{'', CHR ''}'']]
     ''alice'' = Inl UnicodeDecodeError
   \<and> get_context_names example_limits
     [get_user_file_path ''alice'' \<mapsto>
        Refused UnicodeDecodeError [CHR 0xFF, CHR 0xFE, CHR ''{'', CHR ''}'']]
     ''alice'' = Inl UnicodeDecodeError
   \<and> get_context example_limits
     [get_user_file_path ''alice'' \<mapsto>
        Refused UnicodeDecodeError [CHR 0xFF, CHR 0xFE, CHR ''{'', CHR ''}'']]
     ''Acme Corp'' ''alice'' = Inl UnicodeDecodeError"
  by (simp add: load_contexts_def get_context_names_def get_context_def json_loads_def)

text \<open>
  C6, amended. For a workspace key that is not empty whose tenant document exists: when
  the parser raises \<^verbatim>\<open>JSONDecodeError\<close> on it, \<open>load_contexts\<close> returns the empty mapping
  and raises nothing, so the list of names is empty and \<open>get_context\<close> finds nothing
  (\<^verbatim>\<open>None\<close>) under every name; when reading it raises another exception
  (\<^verbatim>\<open>UnicodeDecodeError\<close> for bytes that are not text, \<^verbatim>\<open>RecursionError\<close> for nesting
  beyond the parser's depth, \<^verbatim>\<open>ValueError\<close> for an integer beyond the digit limit), that
  exception leaves \<open>load_contexts\<close>, the listing of names and \<open>get_context\<close>.
\<close>

theorem load_malformed_document:
  assumes "workspace_key \<noteq> []"
    and "fs (get_user_file_path workspace_key) = Some contents"
  shows "(json_loads L contents = Inl JSONDecodeError \<longrightarrow>
            load_contexts L fs workspace_key = Inr (JObj [])
          \<and> get_context_names L fs workspace_key = Inr []
          \<and> get_context L fs name workspace_key = Inr JNull)
       \<and> (\<forall>e. json_loads L contents = Inl e \<and> e \<noteq> JSONDecodeError \<longrightarrow>
            load_contexts L fs workspace_key = Inl e
          \<and> get_context_names L fs workspace_key = Inl e
          \<and> get_context L fs name workspace_key = Inl e)"
  using assms by (simp add: load_contexts_def get_context_names_def get_context_def)

theorem load_malformed_document_witness:
  "''alice'' \<noteq> []
   \<and> [get_user_file_path ''alice'' \<mapsto> Malformed ''{ Acme Corp: '']
        (get_user_file_path ''alice'') = Some (Malformed ''{ Acme Corp: '')
   \<and> json_loads example_limits (Malformed ''{ Acme Corp: '') = Inl JSONDecodeError
   \<and> load_contexts example_limits [get_user_file_path ''alice'' \<mapsto> Malformed ''{ Acme Corp: '']
        ''alice'' = Inr (JObj [])
   \<and> get_context_names example_limits
        [get_user_file_path ''alice'' \<mapsto> Malformed ''{ Acme Corp: ''] ''alice'' = Inr []
   \<and> get_context example_limits
        [get_user_file_path ''alice'' \<mapsto> Malformed ''{ Acme Corp: '']
        ''Acme Corp'' ''alice'' = Inr JNull"
proof -
  have h: "''alice'' \<noteq> []" by simp
  have d: "[get_user_file_path ''alice'' \<mapsto> Malformed ''{ Acme Corp: '']
             (get_user_file_path ''alice'') = Some (Malformed ''{ Acme Corp: '')"
    by simp
  have j: "json_loads example_limits (Malformed ''{ Acme Corp: '') = Inl JSONDecodeError"
    by (simp add: json_loads_def)
  from load_malformed_document
         [where workspace_key = "''alice''" and contents = "Malformed ''{ Acme Corp: ''"
            and fs = "[get_user_file_path ''alice'' \<mapsto> Malformed ''{ Acme Corp: '']"
            and name = "''Acme Corp''" and L = example_limits, OF h d] h d j
  show ?thesis by simp
qed




text \<open>
  C9. Deleting is idempotent. For the empty workspace key, and for a name that is not
  in the tenant's collection, \<open>delete_context\<close> raises nothing and leaves the files as
  they were; hence deleting a name a second time changes nothing and raises nothing.
\<close>

theorem delete_absent_noop:
  assumes "workspace_key = [] \<or> load_contexts L fs workspace_key = Inr (JObj cs)"
  shows "(workspace_key = [] \<or> name \<notin> set (map fst cs)
            \<longrightarrow> delete_context L fs name workspace_key = (Inr (), fs))
       \<and> delete_context L (snd (delete_context L fs name workspace_key)) name workspace_key
           = (Inr (), snd (delete_context L fs name workspace_key))"
  using assms delete_absent [of workspace_key L fs cs name]
    delete_twice [of workspace_key L fs cs name]
  by blast

theorem delete_absent_noop_witness:
  "load_contexts example_limits
     [get_user_file_path ''alice'' \<mapsto>
        Document (JObj [(''Acme Corp'', JObj [(''company_context'', JStr ''rockets'')])])]
     ''alice''
     = Inr (JObj [(''Acme Corp'', JObj [(''company_context'', JStr ''rockets'')])])
   \<and> ''Globex'' \<notin> set (map fst [(''Acme Corp'', JObj [(''company_context'', JStr ''rockets'')])])
   \<and> delete_context example_limits
        [get_user_file_path ''alice'' \<mapsto>
           Document (JObj [(''Acme Corp'', JObj [(''company_context'', JStr ''rockets'')])])]
        ''Globex'' ''alice''
     = (Inr (),
        [get_user_file_path ''alice'' \<mapsto>
           Document (JObj [(''Acme Corp'', JObj [(''company_context'', JStr ''rockets'')])])])
   \<and> delete_context example_limits
        (snd (delete_context example_limits
                [get_user_file_path ''alice'' \<mapsto>
                   Document (JObj [(''Acme Corp'', JObj [(''company_context'', JStr ''rockets'')])])]
                ''Acme Corp'' ''alice''))
        ''Acme Corp'' ''alice''
     = (Inr (), [get_user_file_path ''alice'' \<mapsto> Document (JObj [])])"
proof -
  have l: "load_contexts example_limits
     [get_user_file_path ''alice'' \<mapsto>
        Document (JObj [(''Acme Corp'', JObj [(''company_context'', JStr ''rockets'')])])]
     ''alice''
     = Inr (JObj [(''Acme Corp'', JObj [(''company_context'', JStr ''rockets'')])])"
    by (simp add: load_contexts_def json_loads_def example_limits_def)
  have a: "''Globex'' \<notin> set (map fst [(''Acme Corp'', JObj [(''company_context'', JStr ''rockets'')])])"
    by simp
  have s: "snd (delete_context example_limits
                [get_user_file_path ''alice'' \<mapsto>
                   Document (JObj [(''Acme Corp'', JObj [(''company_context'', JStr ''rockets'')])])]
                ''Acme Corp'' ''alice'')
           = [get_user_file_path ''alice'' \<mapsto> Document (JObj [])]"
    by (simp add: delete_context_def l [unfolded example_limits_def] save_contexts_def
        json_dumps_def example_limits_def)
  from delete_absent_noop [where name = "''Globex''", OF disjI2, OF l]
    delete_absent_noop [where name = "''Acme Corp''", OF disjI2, OF l] a l s
  show ?thesis by simp
qed

text \<open>
  C10. For a workspace key that is not empty and a text that parses to a value that is
  not an object, \<open>import_context\<close> returns no boolean: an exception leaves it, and the
  files are as they were. With no name given the exception is the \<^verbatim>\<open>AttributeError\<close>
  of \<^verbatim>\<open>context_data.get\<close>; with a name given it is the \<^verbatim>\<open>TypeError\<close> of the
  assignment of \<^verbatim>\<open>last_updated\<close> in \<open>save_context\<close>, unless loading the tenant
  document raises before that. When the value is beyond the limits of the parser, the
  exception is the parser's.
\<close>

theorem import_non_object_raises:
  assumes "workspace_key \<noteq> []" and "\<not> is_dict v"
  shows "import_context L now fs (Document v) workspace_key context_name =
           (Inl (case over_limit (parse_depth L) (max_digits L) 0 v of
                   Some e \<Rightarrow> e
                 | None \<Rightarrow>
                     if context_name = None \<or> context_name = Some [] then AttributeError
                     else (case load_contexts L fs workspace_key of
                             Inl e \<Rightarrow> e
                           | Inr contexts \<Rightarrow> TypeError)), fs)"
proof (cases "over_limit (parse_depth L) (max_digits L) 0 v")
  case (Some e)
  with assms(1) over_limit_not_decode_error [of "parse_depth L" "max_digits L" 0 v]
  show ?thesis by (simp add: import_context_def json_loads_def)
next
  case None
  from assms(2) have g: "py_get v ''company_name'' (JStr ''Imported Context'') = Inl AttributeError"
    by (cases v) simp_all
  from assms(2) have s: "py_setitem v (JStr ''last_updated'') (JStr now) = Inl TypeError"
    by (cases v) simp_all
  show ?thesis
  proof (cases "context_name = None \<or> context_name = Some []")
    case True
    with None assms(1) g show ?thesis
      by (auto simp: import_context_def json_loads_def)
  next
    case False
    then obtain c cs where "context_name = Some (c # cs)"
      by (cases context_name; cases "the context_name") auto
    with None assms(1) s load_contexts_not_decode_error [of L fs workspace_key]
    show ?thesis
      by (cases "load_contexts L fs workspace_key")
         (simp_all add: import_context_def json_loads_def save_context_def)
  qed
qed

theorem import_non_object_raises_witness:
  "''alice'' \<noteq> [] \<and> \<not> is_dict (JArr [JInt 1, JInt 2])
   \<and> import_context example_limits ''2026-11-03T10:00:00'' Map.empty
        (Document (JArr [JInt 1, JInt 2])) ''alice'' None
     = (Inl AttributeError, Map.empty)
   \<and> import_context example_limits ''2026-11-03T10:00:00'' Map.empty
        (Document (JArr [JInt 1, JInt 2])) ''alice'' (Some ''Acme Corp'')
     = (Inl TypeError, Map.empty)"
proof -
  have h: "''alice'' \<noteq> []" by simp
  have d: "\<not> is_dict (JArr [JInt 1, JInt 2])" by simp
  have o: "over_limit (parse_depth example_limits) (max_digits example_limits) 0
             (JArr [JInt 1, JInt 2]) = None"
    by (simp add: example_limits_def)
  have l: "load_contexts example_limits Map.empty ''alice'' = Inr (JObj [])"
    by (simp add: load_contexts_def)
  from import_non_object_raises [OF h d, of example_limits _ Map.empty None]
    import_non_object_raises [OF h d, of example_limits _ Map.empty "Some ''Acme Corp''"]
    h d o l
  show ?thesis by simp
qed

text \<open>
  C2, as stated: any two different workspace keys, neither empty, have different tenant
  keys. That cannot hold: a tenant key is one of finitely many strings of 16 characters,
  and there are infinitely many workspace keys.
\<close>

theorem tenant_key_not_injective:
  "\<not> (\<forall>w1 w2. w1 \<noteq> [] \<and> w2 \<noteq> [] \<and> w1 \<noteq> w2 \<longrightarrow> key_hash w1 \<noteq> key_hash w2)"
proof
  assume "\<forall>w1 w2. w1 \<noteq> [] \<and> w2 \<noteq> [] \<and> w1 \<noteq> w2 \<longrightarrow> key_hash w1 \<noteq> key_hash w2"
  then have "inj_on key_hash (UNIV - {[]})"
    by (auto simp: inj_on_def)
  moreover have "finite (key_hash ` (UNIV - {[]}))"
    by (rule finite_subset [OF _ finite_keys]) auto
  ultimately have "finite (UNIV - {[]} :: string set)"
    by (rule finite_imageD [rotated])
  then have "finite (UNIV :: string set)" by simp
  then show False by (simp add: infinite_UNIV_listI)
qed

text \<open>
  C2, amended. The tenant key is determined by the workspace key alone and is a string of
  16 lowercase hexadecimal digits; two workspace keys resolve to the same tenant document
  exactly when their tenant keys are equal. Nothing more separates two tenants: keys of
  different workspace keys differ only as far as the digest does.
\<close>

theorem tenant_key_shape:
  "length (key_hash w1) = 16
   \<and> set (key_hash w1) \<subseteq> set ''0123456789abcdef''
   \<and> (get_user_file_path w1 = get_user_file_path w2 \<longleftrightarrow> key_hash w1 = key_hash w2)"
  by (simp only: length_key_hash set_key_hash path_eq_iff simp_thms)

theorem tenant_key_shape_witness:
  "length (key_hash ''alice'') = 16
   \<and> set (key_hash ''alice'') \<subseteq> set ''0123456789abcdef''
   \<and> key_hash ''alice'' = ''2bd806c97f0e00af''
   \<and> key_hash ''bob'' = ''81b637d8fcd2c6da''
   \<and> get_user_file_path ''alice'' \<noteq> get_user_file_path ''bob''"
  using tenant_key_shape [of "''alice''" "''bob''"] key_hash_alice key_hash_bob
  by simp


text \<open>
  C7, as stated: the derivation fails for the empty workspace key. It does not: for the
  empty key \<open>get_user_file_path\<close> returns the path made from the digest of no bytes.
\<close>

theorem empty_identifier_path:
  "get_user_file_path [] = ''user_contexts/contexts_e3b0c44298fc1c14.json''"
  by (simp add: get_user_file_path_def base_storage_dir_def key_hash_empty)

text \<open>
  C7, amended. The derivation never fails: for every workspace key, the empty one
  included, it yields a key of 16 characters and the path
  \<^verbatim>\<open>user_contexts/contexts_<key>.json\<close>. The empty workspace key is turned away by the
  callers instead, none of which raises: \<open>load_contexts\<close> returns the empty mapping (so
  no names are listed and no record is found), \<open>save_contexts\<close>, \<open>save_context\<close> and
  \<open>delete_context\<close> write nothing, and \<open>import_context\<close> returns \<^verbatim>\<open>False\<close>.
\<close>

theorem empty_identifier_refused_by_callers:
  "get_user_file_path workspace_key = ''user_contexts/contexts_'' @ key_hash workspace_key @ ''.json''
   \<and> length (key_hash workspace_key) = 16
   \<and> load_contexts L fs [] = Inr (JObj [])
   \<and> get_context_names L fs [] = Inr []
   \<and> get_context L fs name [] = Inr JNull
   \<and> save_contexts L fs contexts [] = (Inr (), fs)
   \<and> save_context L now fs n context_data [] = (Inr (), fs)
   \<and> delete_context L fs name [] = (Inr (), fs)
   \<and> import_context L now fs json_string [] context_name = (Inr False, fs)"
  by (simp add: get_user_file_path_def base_storage_dir_def length_key_hash
      load_contexts_def get_context_names_def get_context_def save_contexts_def
      save_context_def delete_context_def import_context_def)










end
